theory Spec2Isabelle
  imports Main "HOL-Library.Char_ord" "HOL-Library.List_Lexorder"
begin

section \<open>Data model of \<open>update_santiment.py\<close>\<close>

text \<open>
  The script fetches \<open>{datetime, value}\<close> points, rewrites each \<open>datetime\<close> into a
  date key (\<open>process_data_file\<close>, lines 96-98) and merges the points into a CSV file
  (\<open>save_new_data\<close>, lines 67-85).

  Strings are \<open>char list\<close>; read as UTF-8 bytes, the lexicographic order on them
  (\<open>List_Lexorder\<close> over \<open>Char_ord\<close>) orders them as Python orders \<open>str\<close> by code
  point.  A value of a data point is whatever the JSON response holds; the script
  never computes with it, it only hands it to \<open>csv.writer\<close>, which writes its
  \<open>str()\<close>.  A float is therefore kept as the text \<open>str()\<close> gives for it.
\<close>

datatype py_error = IndexError | ValueError | KeyError | CsvError

datatype pyval =
    PyNone
  | PyBool bool
  | PyInt int
  | PyFloat string
  | PyStr string

record data_point =
  datetime :: string
  val :: pyval

text \<open>
  A data point is the dict \<open>{"datetime": \<dots>, "value": \<dots>}\<close> of the response; the field
  \<open>val\<close> is its \<open>"value"\<close> entry.

  The file is seen through the \<open>csv\<close> module.  As the input of a call it is the
  sequence of rows \<open>csv.reader\<close> yields, each a list of text fields; \<open>None\<close> is the file
  that does not exist (\<open>os.path.exists\<close> is false).  As the output of a call it is the
  sequence of rows handed to \<open>csv.writer\<close>.  The two are not the same thing: what a later
  call reads of the rows an earlier call wrote is \<open>read_back\<close>, defined below.
\<close>

type_synonym row = "string list"
type_synonym csv_file = "row list option"

text \<open>
  \<open>data_dict\<close> is a Python \<open>dict\<close>: keys are unique and kept in insertion order;
  assigning to a key that is present replaces its value in place.
\<close>

type_synonym data_dict = "(string \<times> pyval) list"

fun setitem :: "data_dict \<Rightarrow> string \<Rightarrow> pyval \<Rightarrow> data_dict" where
  "setitem [] k v = [(k, v)]"
| "setitem ((k', v') # d) k v = (if k' = k then (k, v) # d else (k', v') # setitem d k v)"

definition getitem :: "data_dict \<Rightarrow> string \<Rightarrow> py_error + pyval" where
  "getitem d k = (case map_of d k of None \<Rightarrow> Inl KeyError | Some v \<Rightarrow> Inr v)"

definition keys :: "data_dict \<Rightarrow> string list" where
  "keys d = map fst d"

text \<open>\<open>line[i]\<close> for a literal index \<open>i \<ge> 0\<close>: \<open>IndexError\<close> beyond the end.\<close>

definition index_row :: "row \<Rightarrow> nat \<Rightarrow> py_error + string" where
  "index_row line i = (if i < length line then Inr (line ! i) else Inl IndexError)"

section \<open>What \<open>csv.writer\<close> writes\<close>

fun digit_char :: "nat \<Rightarrow> char" where
  "digit_char n = char_of (48 + n)"

fun str_nat :: "nat \<Rightarrow> string" where
  "str_nat n = (if n < 10 then [digit_char n] else str_nat (n div 10) @ [digit_char (n mod 10)])"

declare str_nat.simps [simp del]

definition str_int :: "int \<Rightarrow> string" where
  "str_int i = (if i < 0 then CHR ''-'' # str_nat (nat (- i)) else str_nat (nat i))"

text \<open>The text of one field: a string as it is, \<open>None\<close> as the empty text, anything else its \<open>str()\<close>.\<close>

fun csv_str :: "pyval \<Rightarrow> string" where
  "csv_str PyNone = []"
| "csv_str (PyBool b) = (if b then ''True'' else ''False'')"
| "csv_str (PyInt i) = str_int i"
| "csv_str (PyFloat s) = s"
| "csv_str (PyStr s) = s"

text \<open>\<open>writer.writerow(cells)\<close>: the row that is written, as the list of the texts of its fields.\<close>

definition writerow :: "pyval list \<Rightarrow> row" where
  "writerow cells = map csv_str cells"

text \<open>
  The line of text for a row in the default (\<open>excel\<close>) dialect: fields joined by a comma,
  a field holding a comma, a double quote, CR or LF is put in double quotes with its
  quotes doubled, a row of one empty field is written as two double quotes, and the line
  ends in CR LF.
\<close>

definition needs_quote :: "string \<Rightarrow> bool" where
  "needs_quote f = (\<exists>c \<in> set f. c = CHR '','' \<or> c = CHR 0x22 \<or> c = CHR 0x0D \<or> c = CHR 0x0A)"

definition quote_field :: "string \<Rightarrow> string" where
  "quote_field f =
     (if needs_quote f
      then CHR 0x22 # concat (map (\<lambda>c. if c = CHR 0x22 then [c, c] else [c]) f) @ [CHR 0x22]
      else f)"

fun join_fields :: "string list \<Rightarrow> string" where
  "join_fields [] = []"
| "join_fields [f] = f"
| "join_fields (f # g # fs) = f @ CHR '','' # join_fields (g # fs)"

definition csv_line :: "row \<Rightarrow> string" where
  "csv_line r =
     (if r = [[]] then [CHR 0x22, CHR 0x22] else join_fields (map quote_field r))
       @ [CHR 0x0D, CHR 0x0A]"

definition csv_text :: "row list \<Rightarrow> string" where
  "csv_text rows = concat (map csv_line rows)"

section \<open>\<open>save_new_data\<close>\<close>

text \<open>Lines 73-74: \<open>for line in csv.reader(file): data_dict[line[0]] = line[1]\<close>.
  The right-hand side \<open>line[1]\<close> is evaluated first.\<close>

fun load_rows :: "row list \<Rightarrow> data_dict \<Rightarrow> py_error + data_dict" where
  "load_rows [] d = Inr d"
| "load_rows (line # rest) d =
     (case index_row line 1 of
        Inl e \<Rightarrow> Inl e
      | Inr v \<Rightarrow>
          (case index_row line 0 of
             Inl e \<Rightarrow> Inl e
           | Inr k \<Rightarrow> load_rows rest (setitem d k (PyStr v))))"

text \<open>Lines 69-74: the empty dict, filled from the file when it exists.\<close>

definition load_existing :: "csv_file \<Rightarrow> py_error + data_dict" where
  "load_existing file = (case file of None \<Rightarrow> Inr [] | Some rows \<Rightarrow> load_rows rows [])"

text \<open>Lines 76-79: \<open>for data_point in data_json: data_dict[date] = val\<close>.\<close>

fun merge_points :: "data_point list \<Rightarrow> data_dict \<Rightarrow> data_dict" where
  "merge_points [] d = d"
| "merge_points (p # ps) d = merge_points ps (setitem d (datetime p) (val p))"

text \<open>Lines 83-85: \<open>for date in sorted(...): val = data_dict[date]; writer.writerow([...])\<close>.\<close>

fun write_rows :: "data_dict \<Rightarrow> string list \<Rightarrow> py_error + row list" where
  "write_rows d [] = Inr []"
| "write_rows d (date # dates) =
     (case getitem d date of
        Inl e \<Rightarrow> Inl e
      | Inr v \<Rightarrow>
          (case write_rows d dates of
             Inl e \<Rightarrow> Inl e
           | Inr rows \<Rightarrow> Inr (writerow [PyStr date, v, v, v, v, PyInt 0] # rows)))"

text \<open>
  \<open>save_new_data(data_json, filename)\<close>, with the file at \<open>filename\<close> as an argument.
  \<open>Inr rows\<close>: the call returns and the file now holds \<open>rows\<close>.  \<open>Inl e\<close>: the call
  raises \<open>e\<close>.
\<close>

definition save_new_data :: "data_point list \<Rightarrow> csv_file \<Rightarrow> py_error + row list" where
  "save_new_data data_json file =
     (case load_existing file of
        Inl e \<Rightarrow> Inl e
      | Inr d0 \<Rightarrow>
          (let data_dict = merge_points data_json d0
           in write_rows data_dict (sort (keys data_dict))))"

section \<open>Reading back what was written\<close>









section \<open>\<open>process_data_file\<close>: the date key\<close>

text \<open>\<open>s.index("T")\<close>: the position of the first \<open>T\<close>, \<open>ValueError\<close> when there is none.\<close>

fun str_index :: "string \<Rightarrow> char \<Rightarrow> py_error + nat" where
  "str_index [] c = Inl ValueError"
| "str_index (x # xs) c =
     (if x = c then Inr 0
      else (case str_index xs c of Inl e \<Rightarrow> Inl e | Inr i \<Rightarrow> Inr (Suc i)))"

text \<open>\<open>s.replace("-", "")\<close>: every \<open>-\<close> removed.\<close>

definition remove_dashes :: "string \<Rightarrow> string" where
  "remove_dashes s = filter (\<lambda>c. c \<noteq> CHR ''-'') s"

text \<open>Lines 97-98, the body of the loop over the data points.\<close>

definition convert_datetime :: "string \<Rightarrow> py_error + string" where
  "convert_datetime s =
     (case str_index s CHR ''T'' of
        Inl e \<Rightarrow> Inl e
      | Inr i \<Rightarrow> (let end_pos = i + 1 in Inr (remove_dashes (take end_pos s))))"

fun convert_points :: "data_point list \<Rightarrow> py_error + data_point list" where
  "convert_points [] = Inr []"
| "convert_points (p # ps) =
     (case convert_datetime (datetime p) of
        Inl e \<Rightarrow> Inl e
      | Inr k \<Rightarrow>
          (case convert_points ps of
             Inl e \<Rightarrow> Inl e
           | Inr ps' \<Rightarrow> Inr (p\<lparr>datetime := k\<rparr> # ps')))"

text \<open>\<open>process_data_file\<close> from line 94 on, with the response's points as an argument.\<close>

definition process_data_file :: "data_point list \<Rightarrow> csv_file \<Rightarrow> py_error + row list" where
  "process_data_file data_json file =
     (case convert_points data_json of
        Inl e \<Rightarrow> Inl e
      | Inr points \<Rightarrow> save_new_data points file)"

section \<open>The table a dict stands for\<close>

text \<open>
  What is written depends on a dict only through the text of its values: \<open>cells d\<close> maps
  each key of \<open>d\<close> to the text \<open>csv.writer\<close> writes for its value.  \<open>render t ks\<close> are the
  rows for the keys \<open>ks\<close> of such a table, and \<open>points_table ps\<close> is the table that
  assigning the data points \<open>ps\<close> in order builds from nothing.
\<close>

definition cells :: "data_dict \<Rightarrow> (string \<rightharpoonup> string)" where
  "cells d = map_option csv_str \<circ> map_of d"

definition table_row :: "string \<Rightarrow> string \<Rightarrow> row" where
  "table_row k v = [k, v, v, v, v, ''0'']"

definition render :: "(string \<rightharpoonup> string) \<Rightarrow> string list \<Rightarrow> row list" where
  "render t ks = map (\<lambda>k. table_row k (the (t k))) ks"


section \<open>Properties of the dict operations\<close>

lemma map_of_setitem: "map_of (setitem d k v) = (map_of d)(k \<mapsto> v)"
  by (induction d k v rule: setitem.induct) auto

lemma keys_setitem: "set (keys (setitem d k v)) = insert k (set (keys d))"
  by (induction d k v rule: setitem.induct) (auto simp: keys_def)

lemma distinct_setitem: "distinct (keys d) \<Longrightarrow> distinct (keys (setitem d k v))"
proof (induction d k v rule: setitem.induct)
  case (1 k v)
  then show ?case by (simp add: keys_def)
next
  case (2 k' v' d k v)
  have "set (keys (setitem d k v)) = insert k (set (keys d))" by (rule keys_setitem)
  with 2 show ?case by (auto simp: keys_def)
qed


lemma dom_cells: "dom (cells d) = set (keys d)"
proof -
  have "dom (cells d) = dom (map_of d)" by (auto simp: cells_def dom_def)
  then show ?thesis by (simp add: keys_def dom_map_of_conv_image_fst)
qed

lemma csv_str_zero: "csv_str (PyInt 0) = ''0''"
  by code_simp

lemma distinct_merge_points: "distinct (keys d) \<Longrightarrow> distinct (keys (merge_points ps d))"
  by (induction ps arbitrary: d) (auto simp: distinct_setitem)



lemma write_rows_render:
  "set ks \<subseteq> set (keys d) \<Longrightarrow> write_rows d ks = Inr (render (cells d) ks)"
proof (induction ks)
  case Nil
  then show ?case by (simp add: render_def)
next
  case (Cons k ks)
  then have "k \<in> fst ` set d" by (simp add: keys_def)
  then obtain v where v: "map_of d k = Some v"
    by (metis domD dom_map_of_conv_image_fst)
  with Cons show ?case
    by (simp add: getitem_def render_def cells_def writerow_def table_row_def csv_str_zero del: csv_str.simps(3))
qed

lemma sort_keys: "distinct (keys d) \<Longrightarrow> sort (keys d) = sorted_list_of_set (dom (cells d))"
  by (simp add: dom_cells sorted_list_of_set_sort_remdups distinct_remdups_id)


lemma load_rows_append:
  "load_rows (rs1 @ rs2) d =
     (case load_rows rs1 d of Inl e \<Rightarrow> Inl e | Inr d1 \<Rightarrow> load_rows rs2 d1)"
  by (induction rs1 arbitrary: d) (auto split: sum.splits)

lemma load_rows_short:
  "\<exists>r \<in> set rows. length r < 2 \<Longrightarrow> load_rows rows d = Inl IndexError"
proof (induction rows arbitrary: d)
  case Nil
  then show ?case by simp
next
  case (Cons r rows)
  show ?case
  proof (cases "length r < 2")
    case True
    then show ?thesis by (simp add: index_row_def)
  next
    case False
    with Cons.prems have "\<exists>r \<in> set rows. length r < 2" by auto
    with False Cons.IH show ?thesis by (simp add: index_row_def)
  qed
qed

lemma load_rows_long:
  "\<forall>r \<in> set rows. 2 \<le> length r \<Longrightarrow> \<exists>d'. load_rows rows d = Inr d'"
  by (induction rows arbitrary: d) (auto simp: index_row_def)

lemma load_rows_fails_iff:
  "(\<exists>e. load_rows rows d = Inl e) \<longleftrightarrow> (\<exists>r \<in> set rows. length r < 2)"
proof
  assume "\<exists>e. load_rows rows d = Inl e"
  show "\<exists>r \<in> set rows. length r < 2"
  proof (rule ccontr)
    assume "\<not> (\<exists>r \<in> set rows. length r < 2)"
    then have "\<forall>r \<in> set rows. 2 \<le> length r" by (simp add: not_less)
    from load_rows_long [OF this, of d] \<open>\<exists>e. load_rows rows d = Inl e\<close>
    show False by auto
  qed
next
  assume "\<exists>r \<in> set rows. length r < 2"
  then show "\<exists>e. load_rows rows d = Inl e" by (simp add: load_rows_short)
qed

lemma load_rows_distinct:
  "load_rows rows d = Inr d' \<Longrightarrow> distinct (keys d) \<Longrightarrow> distinct (keys d')"
  by (induction rows arbitrary: d)
     (auto simp: index_row_def distinct_setitem split: sum.splits if_splits)

lemma load_rows_other:
  "load_rows rows d = Inr d' \<Longrightarrow> \<forall>r \<in> set rows. take 1 r \<noteq> [k] \<Longrightarrow> map_of d' k = map_of d k"
proof (induction rows arbitrary: d)
  case Nil
  then show ?case by simp
next
  case (Cons r rows)
  from Cons.prems(1) have len: "2 \<le> length r"
    by (auto simp: index_row_def split: if_splits)
  then obtain a b rest where r: "r = a # b # rest"
    by (cases r; cases "tl r") auto
  with Cons.prems(1) have step: "load_rows rows (setitem d a (PyStr b)) = Inr d'"
    by (simp add: index_row_def)
  from r Cons.prems(2) have "a \<noteq> k" by simp
  with Cons.IH [OF step] Cons.prems(2) show ?case
    by (simp add: map_of_setitem)
qed

lemma merge_points_append:
  "merge_points (ps1 @ ps2) d = merge_points ps2 (merge_points ps1 d)"
  by (induction ps1 arbitrary: d) auto

lemma merge_points_other:
  "k \<notin> datetime ` set ps \<Longrightarrow> map_of (merge_points ps d) k = map_of d k"
  by (induction ps arbitrary: d) (auto simp: map_of_setitem)


lemma filter_render_none:
  "k \<notin> set ks \<Longrightarrow> filter (\<lambda>r. take 1 r = [k]) (render t ks) = []"
  by (induction ks) (auto simp: render_def table_row_def)

lemma filter_render:
  "distinct ks \<Longrightarrow> k \<in> set ks \<Longrightarrow>
     filter (\<lambda>r. take 1 r = [k]) (render t ks) = [table_row k (the (t k))]"
proof (induction ks)
  case Nil
  then show ?case by simp
next
  case (Cons a ks)
  show ?case
  proof (cases "a = k")
    case True
    with Cons.prems have "k \<notin> set ks" by simp
    from filter_render_none [OF this, of t] True show ?thesis
      by (simp add: render_def table_row_def)
  next
    case False
    with Cons have "filter (\<lambda>r. take 1 r = [k]) (render t ks) = [table_row k (the (t k))]"
      by simp
    with False show ?thesis by (simp add: render_def table_row_def)
  qed
qed

lemma load_existing_distinct: "load_existing file = Inr d0 \<Longrightarrow> distinct (keys d0)"
  by (cases "file") (auto simp: load_existing_def keys_def dest: load_rows_distinct)

lemma save_new_data_render:
  assumes "load_existing file = Inr d0"
  shows "save_new_data ps file =
           Inr (render (cells (merge_points ps d0))
                  (sorted_list_of_set (dom (cells (merge_points ps d0)))))"
proof -
  have "distinct (keys (merge_points ps d0))"
    using assms by (simp add: load_existing_distinct distinct_merge_points)
  then have "sort (keys (merge_points ps d0)) = sorted_list_of_set (dom (cells (merge_points ps d0)))"
    by (rule sort_keys)
  moreover have "set (sort (keys (merge_points ps d0))) \<subseteq> set (keys (merge_points ps d0))"
    by simp
  ultimately show ?thesis
    using assms write_rows_render [of "sort (keys (merge_points ps d0))" "merge_points ps d0"]
    by (simp add: save_new_data_def Let_def)
qed

lemma save_new_data_Inr:
  "save_new_data ps file = Inr rows \<Longrightarrow> \<exists>d0. load_existing file = Inr d0"
  by (auto simp: save_new_data_def split: sum.splits)





section \<open>Properties of \<open>save_new_data\<close>\<close>


lemma map_hd_render: "map hd (render t ks) = ks"
  by (induction ks) (simp_all add: render_def table_row_def)

lemma save_new_data_rows:
  assumes "save_new_data ps file = Inr rows"
  obtains d0 where "load_existing file = Inr d0"
    and "distinct (keys (merge_points ps d0))"
    and "rows = render (cells (merge_points ps d0)) (sort (keys (merge_points ps d0)))"
proof -
  from assms obtain d0 where d0: "load_existing file = Inr d0"
    by (blast dest: save_new_data_Inr)
  have dist: "distinct (keys (merge_points ps d0))"
    using d0 by (simp add: load_existing_distinct distinct_merge_points)
  from save_new_data_render [OF d0, of ps] assms sort_keys [OF dist]
  have "rows = render (cells (merge_points ps d0)) (sort (keys (merge_points ps d0)))"
    by simp
  with d0 dist show ?thesis by (rule that)
qed

lemma filter_rows_key:
  assumes "save_new_data ps file = Inr rows"
    and "load_existing file = Inr d0"
    and "map_of (merge_points ps d0) k = Some v"
  shows "filter (\<lambda>r. take 1 r = [k]) rows = [[k, csv_str v, csv_str v, csv_str v, csv_str v, ''0'']]"
proof -
  from assms(1) obtain d0' where "load_existing file = Inr d0'"
    and dist: "distinct (keys (merge_points ps d0'))"
    and rows: "rows = render (cells (merge_points ps d0')) (sort (keys (merge_points ps d0')))"
    by (rule save_new_data_rows)
  with assms(2) have [simp]: "d0' = d0" by simp
  from assms(3) have "k \<in> set (keys (merge_points ps d0))"
    by (auto simp: keys_def dest: map_of_SomeD intro: rev_image_eqI)
  then have mem: "k \<in> set (sort (keys (merge_points ps d0)))" by simp
  from dist have "distinct (sort (keys (merge_points ps d0)))" by simp
  from filter_render [OF this mem, of "cells (merge_points ps d0)"] rows
  have "filter (\<lambda>r. take 1 r = [k]) rows
      = [table_row k (the (cells (merge_points ps d0) k))]"
    by simp
  with assms(3) show ?thesis by (simp add: cells_def table_row_def)
qed

text \<open>
  C3.  Overwrite, last record wins: when the points \<open>ps1 @ p # ps2\<close> are merged and no
  point after \<open>p\<close> has the date key of \<open>p\<close>, the written file has exactly one row with
  that key, and it carries the value of \<open>p\<close>: whatever the file held for the key before,
  and whatever the earlier points \<open>ps1\<close> gave it.
\<close>

theorem last_record_wins:
  assumes "save_new_data (ps1 @ p # ps2) file = Inr rows"
    and "datetime p \<notin> datetime ` set ps2"
  shows "filter (\<lambda>r. take 1 r = [datetime p]) rows
           = [[datetime p, csv_str (val p), csv_str (val p), csv_str (val p), csv_str (val p), ''0'']]"
proof -
  from assms(1) obtain d0 where d0: "load_existing file = Inr d0"
    by (blast dest: save_new_data_Inr)
  have "map_of (merge_points (ps1 @ p # ps2) d0) (datetime p) = Some (val p)"
    using assms(2) by (simp add: merge_points_append merge_points_other map_of_setitem)
  with assms(1) d0 show ?thesis by (rule filter_rows_key)
qed

theorem last_record_wins_witness:
  "save_new_data
     ([\<lparr>datetime = ''20230101'', val = PyStr ''7''\<rparr>]
        @ \<lparr>datetime = ''20230101'', val = PyStr ''9''\<rparr>
        # [\<lparr>datetime = ''20230102'', val = PyStr ''3''\<rparr>])
     (Some [[''20230101'', ''5'', ''5'', ''5'', ''5'', ''0'']])
   = Inr [[''20230101'', ''9'', ''9'', ''9'', ''9'', ''0''],
          [''20230102'', ''3'', ''3'', ''3'', ''3'', ''0'']]
   \<and> ''20230101'' \<notin> datetime ` set [\<lparr>datetime = ''20230102'', val = PyStr ''3''\<rparr>]
   \<and> filter (\<lambda>r. take 1 r = [''20230101''])
         [[''20230101'', ''9'', ''9'', ''9'', ''9'', ''0''],
          [''20230102'', ''3'', ''3'', ''3'', ''3'', ''0'']]
       = [[''20230101'', ''9'', ''9'', ''9'', ''9'', ''0'']]"
proof -
  have h1: "save_new_data
     ([\<lparr>datetime = ''20230101'', val = PyStr ''7''\<rparr>]
        @ \<lparr>datetime = ''20230101'', val = PyStr ''9''\<rparr>
        # [\<lparr>datetime = ''20230102'', val = PyStr ''3''\<rparr>])
     (Some [[''20230101'', ''5'', ''5'', ''5'', ''5'', ''0'']])
   = Inr [[''20230101'', ''9'', ''9'', ''9'', ''9'', ''0''],
          [''20230102'', ''3'', ''3'', ''3'', ''3'', ''0'']]"
    by code_simp
  have h2: "datetime \<lparr>datetime = ''20230101'', val = PyStr ''9''\<rparr>
      \<notin> datetime ` set [\<lparr>datetime = ''20230102'', val = PyStr ''3''\<rparr>]"
    by simp
  from last_record_wins [OF h1 h2] h1 h2 show ?thesis by simp
qed

text \<open>
  C10.  Frame: when the file holds a row \<open>k, v, \<dots>\<close>, no later row of the file has the key
  \<open>k\<close> and no merged point has it, the written file has exactly one row with the key
  \<open>k\<close>, and it carries \<open>v\<close>.
\<close>

theorem untouched_key_kept:
  assumes "save_new_data ps (Some (rs1 @ (k # v # rest) # rs2)) = Inr rows"
    and "\<forall>r \<in> set rs2. take 1 r \<noteq> [k]"
    and "k \<notin> datetime ` set ps"
  shows "filter (\<lambda>r. take 1 r = [k]) rows = [[k, v, v, v, v, ''0'']]"
proof -
  from assms(1) obtain d0 where d0: "load_existing (Some (rs1 @ (k # v # rest) # rs2)) = Inr d0"
    by (blast dest: save_new_data_Inr)
  then obtain d1 where "load_rows rs1 [] = Inr d1"
    and "load_rows rs2 (setitem d1 k (PyStr v)) = Inr d0"
    by (auto simp: load_existing_def load_rows_append index_row_def split: sum.splits)
  with assms(2) have "map_of d0 k = Some (PyStr v)"
    by (simp add: load_rows_other map_of_setitem)
  with assms(3) have "map_of (merge_points ps d0) k = Some (PyStr v)"
    by (simp add: merge_points_other)
  from filter_rows_key [OF assms(1) d0 this] show ?thesis by simp
qed

theorem untouched_key_kept_witness:
  "save_new_data [\<lparr>datetime = ''20230102'', val = PyStr ''3''\<rparr>]
     (Some ([[''20230101'', ''4'']]
        @ (''20230101'' # ''5'' # [''6'', ''7'', ''8'', ''9''])
        # [[''20230103'', ''7'']]))
   = Inr [[''20230101'', ''5'', ''5'', ''5'', ''5'', ''0''],
          [''20230102'', ''3'', ''3'', ''3'', ''3'', ''0''],
          [''20230103'', ''7'', ''7'', ''7'', ''7'', ''0'']]
   \<and> ''20230101'' \<notin> datetime ` set [\<lparr>datetime = ''20230102'', val = PyStr ''3''\<rparr>]
   \<and> filter (\<lambda>r. take 1 r = [''20230101''])
         [[''20230101'', ''5'', ''5'', ''5'', ''5'', ''0''],
          [''20230102'', ''3'', ''3'', ''3'', ''3'', ''0''],
          [''20230103'', ''7'', ''7'', ''7'', ''7'', ''0'']]
       = [[''20230101'', ''5'', ''5'', ''5'', ''5'', ''0'']]"
proof -
  have h1: "save_new_data [\<lparr>datetime = ''20230102'', val = PyStr ''3''\<rparr>]
     (Some ([[''20230101'', ''4'']]
        @ (''20230101'' # ''5'' # [''6'', ''7'', ''8'', ''9''])
        # [[''20230103'', ''7'']]))
   = Inr [[''20230101'', ''5'', ''5'', ''5'', ''5'', ''0''],
          [''20230102'', ''3'', ''3'', ''3'', ''3'', ''0''],
          [''20230103'', ''7'', ''7'', ''7'', ''7'', ''0'']]"
    by code_simp
  have h2: "\<forall>r \<in> set [[''20230103'', ''7'']]. take 1 r \<noteq> [''20230101'']"
    by simp
  have h3: "''20230101'' \<notin> datetime ` set [\<lparr>datetime = ''20230102'', val = PyStr ''3''\<rparr>]"
    by simp
  from untouched_key_kept [OF h1 h2 h3] h1 h3 show ?thesis by simp
qed

text \<open>
  C4.  Order: whatever the file held and in whatever order the points come, the date keys
  of the written rows (their first fields) are strictly ascending in the lexicographic
  order of strings, so no key is in two rows.
\<close>

theorem rows_strictly_ascending:
  assumes "save_new_data ps file = Inr rows"
  shows "sorted_wrt (<) (map hd rows) \<and> distinct (map hd rows) \<and> [] \<notin> set rows"
proof -
  from assms obtain d0 where dist: "distinct (keys (merge_points ps d0))"
    and rows: "rows = render (cells (merge_points ps d0)) (sort (keys (merge_points ps d0)))"
    by (rule save_new_data_rows)
  have "map hd rows = sort (keys (merge_points ps d0))"
    unfolding rows by (rule map_hd_render)
  moreover have "[] \<notin> set rows"
    unfolding rows by (auto simp: render_def table_row_def)
  ultimately show ?thesis using dist by (simp add: strict_sorted_iff)
qed

theorem rows_strictly_ascending_witness:
  "save_new_data
     [\<lparr>datetime = ''20230103'', val = PyStr ''7''\<rparr>, \<lparr>datetime = ''20230101'', val = PyStr ''5''\<rparr>]
     (Some [[''20230102'', ''1'']])
   = Inr [[''20230101'', ''5'', ''5'', ''5'', ''5'', ''0''],
          [''20230102'', ''1'', ''1'', ''1'', ''1'', ''0''],
          [''20230103'', ''7'', ''7'', ''7'', ''7'', ''0'']]
   \<and> sorted_wrt (<) (map hd
         [[''20230101'', ''5'', ''5'', ''5'', ''5'', ''0''],
          [''20230102'', ''1'', ''1'', ''1'', ''1'', ''0''],
          [''20230103'', ''7'', ''7'', ''7'', ''7'', ''0'']])
   \<and> distinct (map hd
         [[''20230101'', ''5'', ''5'', ''5'', ''5'', ''0''],
          [''20230102'', ''1'', ''1'', ''1'', ''1'', ''0''],
          [''20230103'', ''7'', ''7'', ''7'', ''7'', ''0'']])"
proof -
  have h: "save_new_data
     [\<lparr>datetime = ''20230103'', val = PyStr ''7''\<rparr>, \<lparr>datetime = ''20230101'', val = PyStr ''5''\<rparr>]
     (Some [[''20230102'', ''1'']])
   = Inr [[''20230101'', ''5'', ''5'', ''5'', ''5'', ''0''],
          [''20230102'', ''1'', ''1'', ''1'', ''1'', ''0''],
          [''20230103'', ''7'', ''7'', ''7'', ''7'', ''0'']]"
    by code_simp
  from rows_strictly_ascending [OF h] h show ?thesis by blast
qed

text \<open>
  C9.  A short row raises: when some row of the existing file has fewer than two fields,
  loading raises \<open>IndexError\<close> and so does \<open>save_new_data\<close>, whatever the points; the row
  is not skipped, padded or repaired, and nothing is written.
\<close>

theorem short_row_raises:
  assumes "\<exists>r \<in> set rows. length r < 2"
  shows "load_existing (Some rows) = Inl IndexError \<and> save_new_data ps (Some rows) = Inl IndexError"
  using load_rows_short [OF assms, of "[]"] by (simp add: load_existing_def save_new_data_def)

theorem short_row_raises_witness:
  "(\<exists>r \<in> set [[''20230101'', ''5'', ''5'', ''5'', ''5'', ''0''], [''20230102'']]. length r < 2)
   \<and> load_existing (Some [[''20230101'', ''5'', ''5'', ''5'', ''5'', ''0''], [''20230102'']])
       = Inl IndexError
   \<and> save_new_data [\<lparr>datetime = ''20230103'', val = PyStr ''7''\<rparr>]
         (Some [[''20230101'', ''5'', ''5'', ''5'', ''5'', ''0''], [''20230102'']])
       = Inl IndexError"
proof -
  have h: "\<exists>r \<in> set [[''20230101'', ''5'', ''5'', ''5'', ''5'', ''0''], [''20230102'']]. length r < 2"
    by simp
  from short_row_raises [OF h, of "[\<lparr>datetime = ''20230103'', val = PyStr ''7''\<rparr>]"] h
  show ?thesis by blast
qed

lemma load_rows_take2: "load_rows (map (take 2) rows) d = load_rows rows d"
  by (induction rows arbitrary: d) (auto simp: index_row_def)

lemma load_rows_keys:
  "load_rows rows d = Inr d' \<Longrightarrow>
     set (keys d') = set (keys d) \<union> {k. \<exists>r \<in> set rows. take 1 r = [k]}"
proof (induction rows arbitrary: d)
  case Nil
  then show ?case by simp
next
  case (Cons r rows)
  from Cons.prems have "2 \<le> length r"
    by (auto simp: index_row_def split: if_splits)
  then obtain k v rest where r: "r = k # v # rest"
    by (cases r; cases "tl r") auto
  with Cons.prems have step: "load_rows rows (setitem d k (PyStr v)) = Inr d'"
    by (simp add: index_row_def)
  from Cons.IH [OF step] r show ?case by (auto simp: keys_setitem)
qed

lemma load_existing_lookup:
  assumes "load_existing (Some (rs1 @ (k # v # rest) # rs2)) = Inr d"
    and "\<forall>r \<in> set rs2. take 1 r \<noteq> [k]"
  shows "map_of d k = Some (PyStr v)"
proof -
  from assms(1) obtain d1 where "load_rows rs1 [] = Inr d1"
    and "load_rows rs2 (setitem d1 k (PyStr v)) = Inr d"
    by (auto simp: load_existing_def load_rows_append index_row_def split: sum.splits)
  with assms(2) show ?thesis by (simp add: load_rows_other map_of_setitem)
qed

lemma load_existing_dom:
  assumes "load_existing (Some rows) = Inr d"
  shows "dom (map_of d) = {k. \<exists>r \<in> set rows. take 1 r = [k]}"
proof -
  from assms have "load_rows rows [] = Inr d" by (simp add: load_existing_def)
  from load_rows_keys [OF this] show ?thesis
    by (simp add: dom_map_of_conv_image_fst keys_def)
qed


text \<open>
  C8.  Loading: a file that does not exist gives the empty dict, as the empty file does.
  In the dict loaded from a file, a key \<open>k\<close> has the value that is the second field of the
  last row whose first field is \<open>k\<close>, and the keys are exactly the first fields of the
  rows; a further row \<open>k, v, \<dots>\<close> at the end of the file has the effect of the assignment
  \<open>data_dict[k] = v\<close>.  The fields of a row after its second change neither the dict that
  is loaded nor what \<open>save_new_data\<close> does.
\<close>

theorem load_semantics:
  "load_existing None = Inr []
   \<and> (load_existing (Some (rs1 @ (k # v # rest) # rs2)) = Inr d
        \<and> (\<forall>r \<in> set rs2. take 1 r \<noteq> [k])
      \<longrightarrow> map_of d k = Some (PyStr v))
   \<and> (load_existing (Some rows) = Inr d'
      \<longrightarrow> dom (map_of d') = {k. \<exists>r \<in> set rows. take 1 r = [k]})
   \<and> load_existing (Some (rows @ [k # v # rest]))
       = (case load_existing (Some rows) of Inl e \<Rightarrow> Inl e | Inr d \<Rightarrow> Inr (setitem d k (PyStr v)))
   \<and> load_existing (Some (map (take 2) rows)) = load_existing (Some rows)
   \<and> save_new_data ps None = save_new_data ps (Some [])
   \<and> save_new_data ps (Some (map (take 2) rows)) = save_new_data ps (Some rows)"
proof (intro conjI impI)
  show "load_existing None = Inr []" by (simp add: load_existing_def)
  show "map_of d k = Some (PyStr v)"
    if "load_existing (Some (rs1 @ (k # v # rest) # rs2)) = Inr d
        \<and> (\<forall>r \<in> set rs2. take 1 r \<noteq> [k])"
    using that by (blast intro: load_existing_lookup)
  show "dom (map_of d') = {k. \<exists>r \<in> set rows. take 1 r = [k]}"
    if "load_existing (Some rows) = Inr d'"
    using that by (rule load_existing_dom)
  show "load_existing (Some (rows @ [k # v # rest]))
       = (case load_existing (Some rows) of Inl e \<Rightarrow> Inl e | Inr d \<Rightarrow> Inr (setitem d k (PyStr v)))"
    by (simp add: load_existing_def load_rows_append index_row_def split: sum.splits)
  show l2: "load_existing (Some (map (take 2) rows)) = load_existing (Some rows)"
    by (simp add: load_existing_def load_rows_take2)
  show "save_new_data ps None = save_new_data ps (Some [])"
    by (simp add: save_new_data_def load_existing_def)
  show "save_new_data ps (Some (map (take 2) rows)) = save_new_data ps (Some rows)"
    by (simp only: save_new_data_def l2)
qed


theorem load_semantics_witness:
  "load_existing (Some ([[''20230101'', ''4'']]
        @ (''20230101'' # ''5'' # [''6'', ''7'', ''8'', ''9''])
        # [[''20230103'', ''7'']]))
     = Inr [(''20230101'', PyStr ''5''), (''20230103'', PyStr ''7'')]
   \<and> map_of [(''20230101'', PyStr ''5''), (''20230103'', PyStr ''7'')] ''20230101''
       = Some (PyStr ''5'')
   \<and> dom (map_of [(''20230101'', PyStr ''5''), (''20230103'', PyStr ''7'')])
       = {k. \<exists>r \<in> set ([[''20230101'', ''4'']]
                @ (''20230101'' # ''5'' # [''6'', ''7'', ''8'', ''9''])
                # [[''20230103'', ''7'']]). take 1 r = [k]}"
proof -
  have h1: "load_existing (Some ([[''20230101'', ''4'']]
        @ (''20230101'' # ''5'' # [''6'', ''7'', ''8'', ''9''])
        # [[''20230103'', ''7'']]))
     = Inr [(''20230101'', PyStr ''5''), (''20230103'', PyStr ''7'')]"
    by code_simp
  have h2: "\<forall>r \<in> set [[''20230103'', ''7'']]. take 1 r \<noteq> [''20230101'']"
    by simp
  note t = load_semantics [where ?rs1.0 = "[[''20230101'', ''4'']]" and k = "''20230101''"
      and v = "''5''" and rest = "[''6'', ''7'', ''8'', ''9'']" and ?rs2.0 = "[[''20230103'', ''7'']]"
      and d = "[(''20230101'', PyStr ''5''), (''20230103'', PyStr ''7'')]"
      and rows = "[[''20230101'', ''4'']] @ (''20230101'' # ''5'' # [''6'', ''7'', ''8'', ''9''])
                    # [[''20230103'', ''7'']]"
      and d' = "[(''20230101'', PyStr ''5''), (''20230103'', PyStr ''7'')]"]
  have a: "map_of [(''20230101'', PyStr ''5''), (''20230103'', PyStr ''7'')] ''20230101''
       = Some (PyStr ''5'')"
    by (rule t [THEN conjunct2, THEN conjunct1, rule_format, OF conjI [OF h1 h2]])
  have b: "dom (map_of [(''20230101'', PyStr ''5''), (''20230103'', PyStr ''7'')])
       = {k. \<exists>r \<in> set ([[''20230101'', ''4'']]
                @ (''20230101'' # ''5'' # [''6'', ''7'', ''8'', ''9''])
                # [[''20230103'', ''7'']]). take 1 r = [k]}"
    by (rule t [THEN conjunct2, THEN conjunct2, THEN conjunct1, rule_format, OF h1])
  show ?thesis by (intro conjI h1 a b)
qed

lemma set_render:
  "set ks = set (keys d) \<Longrightarrow> distinct (keys d) \<Longrightarrow>
     set (render (cells d) ks)
       = (\<lambda>(k, v). [k, csv_str v, csv_str v, csv_str v, csv_str v, ''0'']) ` set d"
proof -
  assume ks: "set ks = set (keys d)" and dist: "distinct (keys d)"
  have *: "table_row k (the (cells d k)) = [k, csv_str v, csv_str v, csv_str v, csv_str v, ''0'']"
    if "(k, v) \<in> set d" for k v
    using that dist by (simp add: cells_def table_row_def keys_def)
  have "set (render (cells d) ks) = (\<lambda>k. table_row k (the (cells d k))) ` fst ` set d"
    using ks by (simp add: render_def keys_def)
  also have "\<dots> = (\<lambda>(k, v). table_row k (the (cells d k))) ` set d"
    by (auto simp: image_iff split: prod.splits) force
  also have "\<dots> = (\<lambda>(k, v). [k, csv_str v, csv_str v, csv_str v, csv_str v, ''0'']) ` set d"
    by (rule image_cong) (auto simp: *)
  finally show ?thesis .
qed

lemma quote_field_zero: "quote_field ''0'' = ''0''"
  by code_simp

lemma csv_line_table_row:
  "csv_line [k, v, v, v, v, ''0'']
     = quote_field k @ '','' @ quote_field v @ '','' @ quote_field v @ '',''
         @ quote_field v @ '','' @ quote_field v @ '',0'' @ [CHR 0x0D, CHR 0x0A]"
  by (simp add: csv_line_def quote_field_zero)

text \<open>
  C5.  Format: the written file has one row for each entry of the merged dict and no
  other row (so no header); the row of the entry \<open>(k, v)\<close> has the six fields \<open>k\<close>, the
  text of \<open>v\<close> four times, and \<open>0\<close>; and its line of text is these fields, each quoted
  where the dialect asks for it, with commas between them.
\<close>

theorem written_rows_format:
  assumes "save_new_data ps file = Inr rows"
  shows "\<exists>d0. load_existing file = Inr d0
           \<and> length rows = length (merge_points ps d0)
           \<and> set rows = (\<lambda>(k, v). [k, csv_str v, csv_str v, csv_str v, csv_str v, ''0''])
                          ` set (merge_points ps d0)
           \<and> (\<forall>r \<in> set rows. \<exists>k v. r = [k, v, v, v, v, ''0'']
                \<and> csv_line r = quote_field k @ '','' @ quote_field v @ '','' @ quote_field v @ '',''
                     @ quote_field v @ '','' @ quote_field v @ '',0'' @ [CHR 0x0D, CHR 0x0A])"
proof -
  from assms obtain d0 where d0: "load_existing file = Inr d0"
    and dist: "distinct (keys (merge_points ps d0))"
    and rows: "rows = render (cells (merge_points ps d0)) (sort (keys (merge_points ps d0)))"
    by (rule save_new_data_rows)
  have len: "length rows = length (merge_points ps d0)"
    unfolding rows by (simp add: render_def keys_def)
  have "set (sort (keys (merge_points ps d0))) = set (keys (merge_points ps d0))" by simp
  from set_render [OF this dist] rows
  have img: "set rows = (\<lambda>(k, v). [k, csv_str v, csv_str v, csv_str v, csv_str v, ''0''])
                          ` set (merge_points ps d0)" by simp
  have "\<exists>k v. r = [k, v, v, v, v, ''0'']
                \<and> csv_line r = quote_field k @ '','' @ quote_field v @ '','' @ quote_field v @ '',''
                     @ quote_field v @ '','' @ quote_field v @ '',0'' @ [CHR 0x0D, CHR 0x0A]"
    if "r \<in> set rows" for r
  proof -
    from that img obtain k v where "r = [k, csv_str v, csv_str v, csv_str v, csv_str v, ''0'']"
      by auto
    then show ?thesis using csv_line_table_row by blast
  qed
  with d0 len img show ?thesis by blast
qed

theorem written_rows_format_witness:
  "save_new_data
     [\<lparr>datetime = ''20230101'', val = PyStr ''9''\<rparr>, \<lparr>datetime = ''20230102'', val = PyInt 3\<rparr>]
     (Some [[''20230101'', ''5'', ''5'', ''5'', ''5'', ''0'']])
   = Inr [[''20230101'', ''9'', ''9'', ''9'', ''9'', ''0''],
          [''20230102'', ''3'', ''3'', ''3'', ''3'', ''0'']]
   \<and> (\<exists>d0. load_existing (Some [[''20230101'', ''5'', ''5'', ''5'', ''5'', ''0'']]) = Inr d0
        \<and> length [[''20230101'', ''9'', ''9'', ''9'', ''9'', ''0''],
                   [''20230102'', ''3'', ''3'', ''3'', ''3'', ''0'']]
            = length (merge_points
                [\<lparr>datetime = ''20230101'', val = PyStr ''9''\<rparr>,
                 \<lparr>datetime = ''20230102'', val = PyInt 3\<rparr>] d0)
        \<and> set [[''20230101'', ''9'', ''9'', ''9'', ''9'', ''0''],
                [''20230102'', ''3'', ''3'', ''3'', ''3'', ''0'']]
            = (\<lambda>(k, v). [k, csv_str v, csv_str v, csv_str v, csv_str v, ''0''])
                ` set (merge_points
                    [\<lparr>datetime = ''20230101'', val = PyStr ''9''\<rparr>,
                     \<lparr>datetime = ''20230102'', val = PyInt 3\<rparr>] d0))"
proof -
  have h: "save_new_data
     [\<lparr>datetime = ''20230101'', val = PyStr ''9''\<rparr>, \<lparr>datetime = ''20230102'', val = PyInt 3\<rparr>]
     (Some [[''20230101'', ''5'', ''5'', ''5'', ''5'', ''0'']])
   = Inr [[''20230101'', ''9'', ''9'', ''9'', ''9'', ''0''],
          [''20230102'', ''3'', ''3'', ''3'', ''3'', ''0'']]"
    by code_simp
  from written_rows_format [OF h] h show ?thesis by blast
qed

text \<open>
  C6.  Scenario: with no file, or with an empty one, the points \<open>("20230101", "5")\<close> and
  \<open>("20230103", "7")\<close> give the two rows \<open>20230101,5,5,5,5,0\<close> and
  \<open>20230103,7,7,7,7,0\<close>, in this order.
\<close>

theorem scenario_empty_file:
  "save_new_data
     [\<lparr>datetime = ''20230101'', val = PyStr ''5''\<rparr>, \<lparr>datetime = ''20230103'', val = PyStr ''7''\<rparr>]
     None
   = Inr [[''20230101'', ''5'', ''5'', ''5'', ''5'', ''0''],
          [''20230103'', ''7'', ''7'', ''7'', ''7'', ''0'']]
   \<and> save_new_data
     [\<lparr>datetime = ''20230101'', val = PyStr ''5''\<rparr>, \<lparr>datetime = ''20230103'', val = PyStr ''7''\<rparr>]
     (Some [])
   = Inr [[''20230101'', ''5'', ''5'', ''5'', ''5'', ''0''],
          [''20230103'', ''7'', ''7'', ''7'', ''7'', ''0'']]
   \<and> csv_text [[''20230101'', ''5'', ''5'', ''5'', ''5'', ''0''],
          [''20230103'', ''7'', ''7'', ''7'', ''7'', ''0'']]
   = ''20230101,5,5,5,5,0'' @ [CHR 0x0D, CHR 0x0A] @ ''20230103,7,7,7,7,0'' @ [CHR 0x0D, CHR 0x0A]"
  by code_simp

text \<open>
  C7.  Scenario: with a file of the one row \<open>20230101,5,5,5,5,0\<close>, the points
  \<open>("20230101", "9")\<close> and \<open>("20230102", "3")\<close> give the two rows
  \<open>20230101,9,9,9,9,0\<close> and \<open>20230102,3,3,3,3,0\<close>, in this order.
\<close>

theorem scenario_overwrite:
  "csv_text [[''20230101'', ''5'', ''5'', ''5'', ''5'', ''0'']]
     = ''20230101,5,5,5,5,0'' @ [CHR 0x0D, CHR 0x0A]
   \<and> save_new_data
     [\<lparr>datetime = ''20230101'', val = PyStr ''9''\<rparr>, \<lparr>datetime = ''20230102'', val = PyStr ''3''\<rparr>]
     (Some [[''20230101'', ''5'', ''5'', ''5'', ''5'', ''0'']])
   = Inr [[''20230101'', ''9'', ''9'', ''9'', ''9'', ''0''],
          [''20230102'', ''3'', ''3'', ''3'', ''3'', ''0'']]
   \<and> csv_text [[''20230101'', ''9'', ''9'', ''9'', ''9'', ''0''],
          [''20230102'', ''3'', ''3'', ''3'', ''3'', ''0'']]
   = ''20230101,9,9,9,9,0'' @ [CHR 0x0D, CHR 0x0A] @ ''20230102,3,3,3,3,0'' @ [CHR 0x0D, CHR 0x0A]"
  by code_simp

section \<open>A second call on the written file\<close>




























section \<open>Properties of the date key\<close>

lemma str_index_first:
  "c \<notin> set d \<Longrightarrow> str_index (d @ c # rest) c = Inr (length d)"
  by (induction d) auto

lemma str_index_none: "c \<notin> set s \<Longrightarrow> str_index s c = Inl ValueError"
  by (induction s) auto

lemma convert_datetime_no_T: "CHR ''T'' \<notin> set s \<Longrightarrow> convert_datetime s = Inl ValueError"
  by (simp add: convert_datetime_def str_index_none)

lemma process_data_file_Inr:
  "process_data_file ps file = Inr rows
     \<longleftrightarrow> (\<exists>ps'. convert_points ps = Inr ps' \<and> save_new_data ps' file = Inr rows)"
  by (auto simp: process_data_file_def split: sum.splits)

lemma convert_points_each:
  "convert_points ps = Inr ps' \<Longrightarrow>
     list_all2 (\<lambda>p p'. convert_datetime (datetime p) = Inr (datetime p') \<and> val p' = val p) ps ps'"
  by (induction ps arbitrary: ps') (auto split: sum.splits)

text \<open>
  C2, as the claim states it: the timestamp \<open>2023-05-04T00:00:00Z\<close> does not become the
  date key \<open>20230504\<close>.  Line 97 takes the position of the \<open>T\<close> plus one, so the \<open>T\<close> is
  kept and the key is \<open>20230504T\<close>.
\<close>

theorem date_key_counterexample:
  "convert_datetime ''2023-05-04T00:00:00Z'' = Inr ''20230504T''
   \<and> convert_datetime ''2023-05-04T00:00:00Z'' \<noteq> Inr ''20230504''"
  by code_simp

text \<open>
  C2, amended.  The date key of a timestamp is its text up to and including its first
  \<open>T\<close>, without the \<open>-\<close> signs: \<open>YYYY-MM-DDT\<dots>\<close> gives the nine characters
  \<open>YYYYMMDDT\<close>.  Every data point of a response that is converted has its timestamp
  replaced by this key and keeps its value.  The timestamp \<open>2023-05-04T00:00:00Z\<close> gives
  \<open>20230504T\<close>.
\<close>

theorem date_key_keeps_T:
  "(CHR ''T'' \<notin> set d \<longrightarrow>
      convert_datetime (d @ CHR ''T'' # rest) = Inr (filter (\<lambda>c. c \<noteq> CHR ''-'') d @ ''T''))
   \<and> (set [y1, y2, y3, y4, m1, m2, d1, d2] \<subseteq> set ''0123456789'' \<longrightarrow>
      convert_datetime ([y1, y2, y3, y4, CHR ''-'', m1, m2, CHR ''-'', d1, d2, CHR ''T''] @ rest)
        = Inr [y1, y2, y3, y4, m1, m2, d1, d2, CHR ''T''])
   \<and> (convert_points ps = Inr ps' \<longrightarrow>
      list_all2 (\<lambda>p p'. convert_datetime (datetime p) = Inr (datetime p') \<and> val p' = val p) ps ps')
   \<and> convert_datetime ''2023-05-04T00:00:00Z'' = Inr ''20230504T''"
proof (intro conjI impI)
  show g: "convert_datetime (d @ CHR ''T'' # rest) = Inr (filter (\<lambda>c. c \<noteq> CHR ''-'') d @ ''T'')"
    if "CHR ''T'' \<notin> set d" for d rest
    using that by (simp add: convert_datetime_def str_index_first remove_dashes_def)
  show "convert_datetime ([y1, y2, y3, y4, CHR ''-'', m1, m2, CHR ''-'', d1, d2, CHR ''T''] @ rest)
        = Inr [y1, y2, y3, y4, m1, m2, d1, d2, CHR ''T'']"
    if "set [y1, y2, y3, y4, m1, m2, d1, d2] \<subseteq> set ''0123456789''"
  proof -
    have dig: "c \<noteq> CHR ''T'' \<and> c \<noteq> CHR ''-''" if "c \<in> set ''0123456789''" for c
      using that by auto
    from that have m: "y1 \<in> set ''0123456789''" "y2 \<in> set ''0123456789''"
      "y3 \<in> set ''0123456789''" "y4 \<in> set ''0123456789''" "m1 \<in> set ''0123456789''"
      "m2 \<in> set ''0123456789''" "d1 \<in> set ''0123456789''" "d2 \<in> set ''0123456789''"
      by simp_all
    note ne = m [THEN dig]
    then have "CHR ''T'' \<notin> set [y1, y2, y3, y4, CHR ''-'', m1, m2, CHR ''-'', d1, d2]"
      by (simp del: set_simps add: set_simps) metis
    from g [OF this, of rest] ne show ?thesis by simp
  qed
  show "list_all2 (\<lambda>p p'. convert_datetime (datetime p) = Inr (datetime p') \<and> val p' = val p) ps ps'"
    if "convert_points ps = Inr ps'"
    using that by (rule convert_points_each)
  show "convert_datetime ''2023-05-04T00:00:00Z'' = Inr ''20230504T''"
    by code_simp
qed

theorem date_key_keeps_T_witness:
  "CHR ''T'' \<notin> set ''2023-05-04''
   \<and> convert_datetime (''2023-05-04'' @ CHR ''T'' # ''00:00:00Z'') = Inr ''20230504T''
   \<and> set ''20230504'' \<subseteq> set ''0123456789''
   \<and> convert_datetime (''2023-05-04T'' @ ''00:00:00Z'') = Inr ''20230504T''
   \<and> convert_points [\<lparr>datetime = ''2023-05-04T00:00:00Z'', val = PyFloat ''1.5''\<rparr>]
       = Inr [\<lparr>datetime = ''20230504T'', val = PyFloat ''1.5''\<rparr>]
   \<and> list_all2 (\<lambda>p p'. convert_datetime (datetime p) = Inr (datetime p') \<and> val p' = val p)
         [\<lparr>datetime = ''2023-05-04T00:00:00Z'', val = PyFloat ''1.5''\<rparr>]
         [\<lparr>datetime = ''20230504T'', val = PyFloat ''1.5''\<rparr>]"
proof -
  have h1: "CHR ''T'' \<notin> set ''2023-05-04''" by simp
  have h2: "set ''20230504'' \<subseteq> set ''0123456789''" by simp
  have h3: "convert_points [\<lparr>datetime = ''2023-05-04T00:00:00Z'', val = PyFloat ''1.5''\<rparr>]
       = Inr [\<lparr>datetime = ''20230504T'', val = PyFloat ''1.5''\<rparr>]"
    by code_simp
  note t = date_key_keeps_T [where d = "''2023-05-04''" and rest = "''00:00:00Z''"
      and ?y1.0 = "CHR ''2''" and ?y2.0 = "CHR ''0''" and ?y3.0 = "CHR ''2''" and ?y4.0 = "CHR ''3''"
      and ?m1.0 = "CHR ''0''" and ?m2.0 = "CHR ''5''" and ?d1.0 = "CHR ''0''" and ?d2.0 = "CHR ''4''"
      and ps = "[\<lparr>datetime = ''2023-05-04T00:00:00Z'', val = PyFloat ''1.5''\<rparr>]"
      and ps' = "[\<lparr>datetime = ''20230504T'', val = PyFloat ''1.5''\<rparr>]"]
  have a: "convert_datetime (''2023-05-04'' @ CHR ''T'' # ''00:00:00Z'') = Inr ''20230504T''"
    using t [THEN conjunct1, rule_format, OF h1] by simp
  have b: "convert_datetime (''2023-05-04T'' @ ''00:00:00Z'') = Inr ''20230504T''"
    by (rule t [THEN conjunct2, THEN conjunct1, rule_format, OF h2])
  have c: "list_all2 (\<lambda>p p'. convert_datetime (datetime p) = Inr (datetime p') \<and> val p' = val p)
         [\<lparr>datetime = ''2023-05-04T00:00:00Z'', val = PyFloat ''1.5''\<rparr>]
         [\<lparr>datetime = ''20230504T'', val = PyFloat ''1.5''\<rparr>]"
    by (rule t [THEN conjunct2, THEN conjunct2, THEN conjunct1, rule_format, OF h3])
  show ?thesis by (intro conjI h1 a h2 b h3 c)
qed

end
